theory Spec2Isabelle
  imports Complex_Main "HOL-Library.Multiset" "HOL-Library.Sublist"
begin

section \<open>JavaScript numbers\<close>

text \<open>
  The detectors of \<^verbatim>\<open>src/server/ml/anomalyDetection.js\<close> compute with JavaScript
  numbers. A number is modelled as a real or one of the three special values of IEEE 754;
  the operations follow IEEE 754 on the special values (division by zero yields an
  infinity or NaN and never raises, every comparison with NaN is false) and are exact on
  the reals: rounding, overflow to an infinity and the sign of zero are not modelled.
\<close>

datatype jsnum = NaN | PInf | NInf | Fin real

definition isNaN :: "jsnum \<Rightarrow> bool" where
  "isNaN x = (x = NaN)"

fun js_neg :: "jsnum \<Rightarrow> jsnum" where
  "js_neg NaN = NaN"
| "js_neg PInf = NInf"
| "js_neg NInf = PInf"
| "js_neg (Fin a) = Fin (- a)"

fun js_add :: "jsnum \<Rightarrow> jsnum \<Rightarrow> jsnum" where
  "js_add (Fin a) (Fin b) = Fin (a + b)"
| "js_add NaN y = NaN"
| "js_add x NaN = NaN"
| "js_add PInf NInf = NaN"
| "js_add NInf PInf = NaN"
| "js_add PInf y = PInf"
| "js_add NInf y = NInf"
| "js_add x PInf = PInf"
| "js_add x NInf = NInf"

definition js_sub :: "jsnum \<Rightarrow> jsnum \<Rightarrow> jsnum" where
  "js_sub x y = js_add x (js_neg y)"

fun js_mul :: "jsnum \<Rightarrow> jsnum \<Rightarrow> jsnum" where
  "js_mul (Fin a) (Fin b) = Fin (a * b)"
| "js_mul NaN y = NaN"
| "js_mul x NaN = NaN"
| "js_mul (Fin a) PInf = (if a = 0 then NaN else if 0 < a then PInf else NInf)"
| "js_mul (Fin a) NInf = (if a = 0 then NaN else if 0 < a then NInf else PInf)"
| "js_mul PInf (Fin b) = (if b = 0 then NaN else if 0 < b then PInf else NInf)"
| "js_mul NInf (Fin b) = (if b = 0 then NaN else if 0 < b then NInf else PInf)"
| "js_mul PInf PInf = PInf"
| "js_mul PInf NInf = NInf"
| "js_mul NInf PInf = NInf"
| "js_mul NInf NInf = PInf"

fun js_div :: "jsnum \<Rightarrow> jsnum \<Rightarrow> jsnum" where
  "js_div (Fin a) (Fin b) =
     (if b = 0 then (if a = 0 then NaN else if 0 < a then PInf else NInf)
      else Fin (a / b))"
| "js_div NaN y = NaN"
| "js_div x NaN = NaN"
| "js_div (Fin a) PInf = Fin 0"
| "js_div (Fin a) NInf = Fin 0"
| "js_div PInf (Fin b) = (if 0 \<le> b then PInf else NInf)"
| "js_div NInf (Fin b) = (if 0 \<le> b then NInf else PInf)"
| "js_div PInf y = NaN"
| "js_div NInf y = NaN"

text \<open>\<^verbatim>\<open>Math.pow(x, 2)\<close>, \<^verbatim>\<open>Math.sqrt\<close>, \<^verbatim>\<open>Math.abs\<close>, \<^verbatim>\<open>Math.min\<close> of two arguments and
  \<^verbatim>\<open>Math.max(...xs)\<close>.\<close>

definition Math_pow2 :: "jsnum \<Rightarrow> jsnum" where
  "Math_pow2 x = js_mul x x"

fun Math_sqrt :: "jsnum \<Rightarrow> jsnum" where
  "Math_sqrt NaN = NaN"
| "Math_sqrt PInf = PInf"
| "Math_sqrt NInf = NaN"
| "Math_sqrt (Fin a) = (if a < 0 then NaN else Fin (sqrt a))"

fun Math_abs :: "jsnum \<Rightarrow> jsnum" where
  "Math_abs NaN = NaN"
| "Math_abs PInf = PInf"
| "Math_abs NInf = PInf"
| "Math_abs (Fin a) = Fin \<bar>a\<bar>"

fun js_lt :: "jsnum \<Rightarrow> jsnum \<Rightarrow> bool" where
  "js_lt (Fin a) (Fin b) = (a < b)"
| "js_lt NaN y = False"
| "js_lt x NaN = False"
| "js_lt x NInf = False"
| "js_lt PInf y = False"
| "js_lt NInf y = True"
| "js_lt x PInf = True"

definition js_gt :: "jsnum \<Rightarrow> jsnum \<Rightarrow> bool" where
  "js_gt x y = js_lt y x"

text \<open>Strict equality \<^verbatim>\<open>===\<close> of two numbers: NaN equals nothing.\<close>

definition js_eq :: "jsnum \<Rightarrow> jsnum \<Rightarrow> bool" where
  "js_eq x y = (x \<noteq> NaN \<and> x = y)"

definition Math_min :: "jsnum \<Rightarrow> jsnum \<Rightarrow> jsnum" where
  "Math_min x y = (if x = NaN \<or> y = NaN then NaN else if js_lt y x then y else x)"

definition Math_max2 :: "jsnum \<Rightarrow> jsnum \<Rightarrow> jsnum" where
  "Math_max2 x y = (if x = NaN \<or> y = NaN then NaN else if js_lt x y then y else x)"

definition Math_max :: "jsnum list \<Rightarrow> jsnum" where
  "Math_max xs = foldl Math_max2 NInf xs"

text \<open>
  \<^verbatim>\<open>parseFloat\<close> is applied to the amount field of a transaction. The field is modelled
  as a number: \<^verbatim>\<open>parseFloat\<close> returns a number unchanged, and a missing field, which
  \<^verbatim>\<open>parseFloat\<close> reads as NaN, is the amount \<open>NaN\<close>.
\<close>

definition parseFloat :: "jsnum \<Rightarrow> jsnum" where
  "parseFloat x = x"

subsection \<open>Formatting: \<^verbatim>\<open>Number.prototype.toFixed\<close>\<close>

definition digit_char :: "nat \<Rightarrow> char" where
  "digit_char n = ''0123456789'' ! (n mod 10)"

function digits_of :: "nat \<Rightarrow> string" where
  "digits_of n = (if n < 10 then [digit_char n] else digits_of (n div 10) @ [digit_char n])"
  by pat_completeness auto
termination
  by (relation "measure (\<lambda>n. n)") auto

declare digits_of.simps [simp del]

definition pad_zeros :: "nat \<Rightarrow> string \<Rightarrow> string" where
  "pad_zeros d s = replicate (d - length s) (CHR ''0'') @ s"

text \<open>
  \<open>toFixed d x\<close> is \<^verbatim>\<open>x.toFixed(d)\<close> for \<open>\<bar>x\<bar> < 10\<^sup>2\<^sup>1\<close> (beyond that JavaScript switches to
  exponent notation): the nearest multiple of \<open>10\<^sup>-\<^sup>d\<close>, the larger one on a tie, with a
  leading minus sign for every negative \<open>x\<close>.
\<close>

definition toFixed :: "nat \<Rightarrow> jsnum \<Rightarrow> string" where
  "toFixed d x =
     (case x of
        NaN \<Rightarrow> ''NaN''
      | PInf \<Rightarrow> ''Infinity''
      | NInf \<Rightarrow> ''-Infinity''
      | Fin a \<Rightarrow>
          (let n = nat \<lfloor>\<bar>a\<bar> * 10 ^ d + 1 / 2\<rfloor>;
               s = digits_of (n div 10 ^ d) @
                   (if d = 0 then [] else ''.'' @ pad_zeros d (digits_of (n mod 10 ^ d)))
           in if a < 0 then ''-'' @ s else s))"

section \<open>Dates\<close>

text \<open>
  The date field of a transaction is modelled by what \<^verbatim>\<open>new Date(t.date)\<close> makes of it:
  \<open>Some ms\<close> is a valid date with time value \<open>ms\<close> (milliseconds since the epoch), \<open>None\<close>
  is an Invalid Date, whose time value is NaN. The local time zone is taken to be UTC.
\<close>

type_synonym jsdate = "int option"

definition getTime :: "jsdate \<Rightarrow> jsnum" where
  "getTime d = (case d of None \<Rightarrow> NaN | Some ms \<Rightarrow> Fin (real_of_int ms))"

definition msPerDay :: int where
  "msPerDay = 1000 * 60 * 60 * 24"

text \<open>Day of the week, 0 for Sunday; the first of January 1970 was a Thursday.\<close>

definition getDay :: "jsdate \<Rightarrow> jsnum" where
  "getDay d = (case d of None \<Rightarrow> NaN
               | Some ms \<Rightarrow> Fin (real_of_int ((ms div msPerDay + 4) mod 7)))"

text \<open>Day of the month, from the number of days since the epoch (Gregorian calendar).\<close>

definition day_of_month :: "int \<Rightarrow> int" where
  "day_of_month days =
     (let z = days + 719468;
          doe = z mod 146097;
          yoe = (doe - doe div 1460 + doe div 36524 - doe div 146096) div 365;
          doy = doe - (365 * yoe + yoe div 4 - yoe div 100);
          mp = (5 * doy + 2) div 153
      in doy - (153 * mp + 2) div 5 + 1)"

definition getDate :: "jsdate \<Rightarrow> jsnum" where
  "getDate d = (case d of None \<Rightarrow> NaN
                | Some ms \<Rightarrow> Fin (real_of_int (day_of_month (ms div msPerDay))))"

text \<open>
  \<^verbatim>\<open>toISOString\<close> raises a RangeError on an Invalid Date. Only the date part of the
  result is used (\<^verbatim>\<open>.split('T')[0]\<close>, in a log line), so a valid date yields its day
  number here.
\<close>

datatype error =
    StoreFailure string
  | ModelFailure string
  | InvalidScores
  | RangeError

definition toISOString :: "jsdate \<Rightarrow> error + int" where
  "toISOString d = (case d of None \<Rightarrow> Inl RangeError | Some ms \<Rightarrow> Inr (ms div msPerDay))"

section \<open>Arrays\<close>

text \<open>
  \<^verbatim>\<open>Array.prototype.sort\<close> with a comparator: the sort is stable, and a comparator
  result of NaN counts as 0. The model is the stable insertion sort; \<open>cmp x y > 0\<close> moves
  \<open>x\<close> behind \<open>y\<close>. Every conforming sort returns the same array when the comparator is
  consistent. With a comparator that is not (dates that parse next to dates that do not)
  the language leaves the order to the implementation; insertion, like the engine of
  Node.js, then leaves an array unchanged in which no element is compared greater than a
  later one.
\<close>

fun insert_by :: "('a \<Rightarrow> 'a \<Rightarrow> jsnum) \<Rightarrow> 'a \<Rightarrow> 'a list \<Rightarrow> 'a list" where
  "insert_by cmp x [] = [x]"
| "insert_by cmp x (y # ys) =
     (if js_gt (cmp x y) (Fin 0) then y # insert_by cmp x ys else x # y # ys)"

fun array_sort :: "('a \<Rightarrow> 'a \<Rightarrow> jsnum) \<Rightarrow> 'a list \<Rightarrow> 'a list" where
  "array_sort cmp [] = []"
| "array_sort cmp (x # xs) = insert_by cmp x (array_sort cmp xs)"

definition slice :: "nat \<Rightarrow> nat \<Rightarrow> 'a list \<Rightarrow> 'a list" where
  "slice b e xs = take (e - b) (drop b xs)"

section \<open>Data model\<close>

text \<open>
  A transaction document of the store, with its document id. The optional fields
  \<^verbatim>\<open>category\<close> and \<^verbatim>\<open>categoryName\<close> are \<open>None\<close> when absent.
\<close>

record transaction =
  tx_id :: string
  amount :: jsnum
  date :: jsdate
  category :: "string option"
  categoryName :: "string option"

text \<open>An anomaly record is the transaction's fields with a score and a reason.\<close>

record anomaly = transaction +
  anomalyScore :: jsnum
  reason :: string

definition annotate :: "transaction \<Rightarrow> jsnum \<Rightarrow> string \<Rightarrow> anomaly" where
  "annotate t score r =
     \<lparr>tx_id = tx_id t, amount = amount t, date = date t, category = category t,
      categoryName = categoryName t, anomalyScore = score, reason = r\<rparr>"

text \<open>Truthiness of an optional string, and \<^verbatim>\<open>s || ''\<close>.\<close>

definition truthy :: "string option \<Rightarrow> bool" where
  "truthy s = (case s of None \<Rightarrow> False | Some v \<Rightarrow> v \<noteq> [])"

definition or_empty :: "string option \<Rightarrow> string" where
  "or_empty s = (case s of None \<Rightarrow> [] | Some v \<Rightarrow> v)"

section \<open>Statistical Window Detector\<close>

definition mean_of :: "jsnum list \<Rightarrow> jsnum" where
  "mean_of contextAmounts =
     js_div (foldl (\<lambda>sum val. js_add sum val) (Fin 0) contextAmounts)
            (Fin (real (length contextAmounts)))"

definition stdDev_of :: "jsnum list \<Rightarrow> jsnum" where
  "stdDev_of contextAmounts =
     (let mean = mean_of contextAmounts in
      Math_sqrt (js_div
        (foldl (\<lambda>sum val. js_add sum (Math_pow2 (js_sub val mean))) (Fin 0) contextAmounts)
        (Fin (real (length contextAmounts)))))"

definition windowSize :: nat where
  "windowSize = 10"

definition minWindowSize :: nat where
  "minWindowSize = 5"

definition contextWindow :: "transaction list \<Rightarrow> nat \<Rightarrow> transaction list" where
  "contextWindow transactions i =
     (let availableContext = min windowSize i
      in slice (i - availableContext) i transactions)"

definition contextAmounts :: "transaction list \<Rightarrow> nat \<Rightarrow> jsnum list" where
  "contextAmounts transactions i = map (\<lambda>t. parseFloat (amount t)) (contextWindow transactions i)"

definition window_reason :: "transaction \<Rightarrow> jsnum \<Rightarrow> jsnum \<Rightarrow> jsnum \<Rightarrow> string" where
  "window_reason currentTx currentAmount mean score =
     (if js_gt score (Fin 5) then
        ''This expense of $'' @ toFixed 2 currentAmount @
        '' is extremely high compared to your typical '' @ or_empty (categoryName currentTx) @
        '' spending of around $'' @ toFixed 2 mean @ ''.''
      else if js_gt score (Fin 3) then
        ''This expense is significantly higher than your average '' @
        or_empty (categoryName currentTx) @ '' spending from this time period.''
      else
        ''This '' @ or_empty (categoryName currentTx) @
        '' expense is higher than your typical spending pattern at the time.'')"

text \<open>The body of the loop at index \<open>i\<close>: the anomaly pushed, if any.\<close>

definition window_step :: "transaction list \<Rightarrow> nat \<Rightarrow> anomaly option" where
  "window_step transactions i =
     (let currentTx = transactions ! i;
          mean = mean_of (contextAmounts transactions i);
          stdDev = stdDev_of (contextAmounts transactions i);
          threshold = js_add mean (js_mul (Fin 2.5) stdDev);
          currentAmount = parseFloat (amount currentTx)
      in if js_gt currentAmount threshold then
           (let score = js_div (js_sub currentAmount mean) stdDev
            in Some (annotate currentTx score (window_reason currentTx currentAmount mean score)))
         else None)"

function window_loop :: "transaction list \<Rightarrow> nat \<Rightarrow> anomaly list \<Rightarrow> anomaly list" where
  "window_loop transactions i anomalies =
     (if i < length transactions then
        window_loop transactions (Suc i)
          (case window_step transactions i of
             None \<Rightarrow> anomalies
           | Some a \<Rightarrow> anomalies @ [a])
      else anomalies)"
  by pat_completeness auto
termination
  by (relation "measure (\<lambda>(transactions, i, anomalies). length transactions - i)") auto

declare window_loop.simps [simp del]

definition by_date_asc :: "transaction \<Rightarrow> transaction \<Rightarrow> jsnum" where
  "by_date_asc a b = js_sub (getTime (date a)) (getTime (date b))"

text \<open>
  \<^verbatim>\<open>detectAnomaliesWithSlidingWindow\<close> sorts the array it is given in place, so the
  model returns the anomalies together with the caller's array as the call leaves it.
\<close>

definition detectAnomaliesWithSlidingWindow ::
    "transaction list \<Rightarrow> anomaly list \<times> transaction list" where
  "detectAnomaliesWithSlidingWindow transactions =
     (let sorted = array_sort by_date_asc transactions
      in (window_loop sorted minWindowSize [], sorted))"

section \<open>Feature Extractor\<close>

text \<open>
  \<open>now\<close> is the value of \<^verbatim>\<open>Date.now()\<close>, taken to be the same instant for every
  transaction of one call.
\<close>

definition preprocessTransactions :: "int \<Rightarrow> transaction list \<Rightarrow> jsnum list list" where
  "preprocessTransactions now transactions =
     map (\<lambda>transaction.
       (let amount' = parseFloat (amount transaction);
            txDate = date transaction;
            isValidDate = \<not> isNaN (getTime txDate)
        in [if isNaN amount' then Fin 0 else amount',
            if isValidDate then getDate txDate else Fin 1,
            if isValidDate then getDay txDate else Fin 0,
            if isValidDate then
              Math_min (Fin 1)
                (js_div (js_sub (Fin (real_of_int now)) (getTime txDate))
                        (Fin (1000 * 60 * 60 * 24 * 30)))
            else Fin 0.5]))
       transactions"

section \<open>Reason Generator\<close>

definition weekday :: "string list" where
  "weekday = [''Sunday'', ''Monday'', ''Tuesday'', ''Wednesday'', ''Thursday'', ''Friday'',
              ''Saturday'']"

text \<open>\<^verbatim>\<open>weekday[k]\<close>: \<open>None\<close> is \<^verbatim>\<open>undefined\<close>.\<close>

definition weekday_at :: "jsnum \<Rightarrow> string option" where
  "weekday_at k =
     (case k of
        Fin r \<Rightarrow> (if 0 \<le> r \<and> r < 7 \<and> r = real_of_int \<lfloor>r\<rfloor> then Some (weekday ! nat \<lfloor>r\<rfloor>) else None)
      | _ \<Rightarrow> None)"

definition generateAnomalyReason :: "'a transaction_scheme \<Rightarrow> transaction list \<Rightarrow> string" where
  "generateAnomalyReason anomaly allTransactions =
     (let amounts = map (\<lambda>t. parseFloat (amount t)) allTransactions;
          avgAmount = js_div (foldl (\<lambda>sum val. js_add sum val) (Fin 0) amounts)
                             (Fin (real (length amounts)));
          maxAmount = Math_max amounts;
          amountRatio = js_div (amount anomaly) avgAmount
      in if js_gt amountRatio (Fin 3) then
           ''This expense is '' @ toFixed 1 amountRatio @ ''x higher than your average '' @
           or_empty (categoryName anomaly) @ '' spending.''
         else if js_gt amountRatio (Fin 1.5) then
           ''This expense is significantly higher than your typical '' @
           or_empty (categoryName anomaly) @ '' transactions.''
         else if js_eq (amount anomaly) maxAmount then
           ''This is your largest recorded expense in the '' @
           or_empty (categoryName anomaly) @ '' category.''
         else
           (let day = weekday_at (getDay (date anomaly))
            in ''This '' @ or_empty (categoryName anomaly) @
               '' expense has an unusual pattern (timing, amount, or frequency) compared to your typical spending.''))"

section \<open>Detection Orchestrator\<close>

text \<open>
  The document store and the outlier model are outside the repository. A query of the
  store either fails or yields the documents it found, in the order the store returns
  them; fitting and scoring the isolation forest either raises or yields one score per
  feature vector.
\<close>

record store =
  expensesOfCategory :: "string \<Rightarrow> string option \<Rightarrow> error + transaction list"
  expensesOfUser :: "string \<Rightarrow> error + transaction list"

type_synonym outlier_model = "jsnum list list \<Rightarrow> error + jsnum list"

record category_result =
  anomalies :: "anomaly list"
  categoryId :: string
  message :: "string option"
  method_label :: "string option"

definition toUpperCase_char :: "char \<Rightarrow> char" where
  "toUpperCase_char c =
     (let n = (of_char c :: nat) in if 97 \<le> n \<and> n \<le> 122 then char_of (n - 32) else c)"

text \<open>\<^verbatim>\<open>s.charAt(0).toUpperCase() + s.slice(1)\<close>, for ASCII letters.\<close>

definition capitalize :: "string \<Rightarrow> string" where
  "capitalize s = map toUpperCase_char (take 1 s) @ drop 1 s"

definition resolveCategoryName :: "transaction list \<Rightarrow> string \<Rightarrow> anomaly \<Rightarrow> anomaly" where
  "resolveCategoryName transactions cid anomaly =
     (if \<not> truthy (categoryName anomaly) \<and> truthy (category anomaly) then
        (case find (\<lambda>t. truthy (categoryName t) \<and> category t = Some cid) transactions of
           Some categoryObj \<Rightarrow> anomaly\<lparr>categoryName := categoryName categoryObj\<rparr>
         | None \<Rightarrow> anomaly\<lparr>categoryName := Some (capitalize cid)\<rparr>)
      else anomaly)"

text \<open>\<^verbatim>\<open>scores[index]\<close>; beyond the end it is \<^verbatim>\<open>undefined\<close>, which compares like NaN.\<close>

definition scoreAt :: "jsnum list \<Rightarrow> nat \<Rightarrow> jsnum" where
  "scoreAt scores index = (if index < length scores then scores ! index else NaN)"

text \<open>A map whose function may raise stops at the first error.\<close>

fun map_result :: "('a \<Rightarrow> error + 'b) \<Rightarrow> 'a list \<Rightarrow> error + 'b list" where
  "map_result f [] = Inr []"
| "map_result f (x # xs) =
     (case f x of
        Inl e \<Rightarrow> Inl e
      | Inr y \<Rightarrow> (case map_result f xs of Inl e \<Rightarrow> Inl e | Inr ys \<Rightarrow> Inr (y # ys)))"

text \<open>The inner \<^verbatim>\<open>try\<close> block: the outlier model path. \<open>Inl\<close> is an exception raised in it.\<close>

definition outlierModelDetection ::
    "outlier_model \<Rightarrow> int \<Rightarrow> transaction list \<Rightarrow> string \<Rightarrow> error + category_result" where
  "outlierModelDetection isolationForest now transactions cid =
     (let features = preprocessTransactions now transactions
      in case isolationForest features of
           Inl e \<Rightarrow> Inl e
         | Inr scores \<Rightarrow>
             if list_ex isNaN scores then Inl InvalidScores
             else
               (let scoredTransactions =
                      map (\<lambda>(index, transaction). annotate transaction (scoreAt scores index) [])
                          (enumerate 0 transactions);
                    flagged =
                      array_sort (\<lambda>a b. js_sub (anomalyScore a) (anomalyScore b))
                        (filter (\<lambda>t. js_lt (anomalyScore t) (Fin (- 0.3))) scoredTransactions)
                in Inr \<lparr>anomalies =
                          map (\<lambda>anomaly. resolveCategoryName transactions cid
                                 (anomaly\<lparr>reason := generateAnomalyReason anomaly transactions\<rparr>))
                              flagged,
                        categoryId = cid, message = None, method_label = None\<rparr>))"

text \<open>
  The handler of the inner \<^verbatim>\<open>try\<close>: the fallback. The log line of the anomalies found
  calls \<^verbatim>\<open>toISOString\<close> on the date of each; an exception raised here leaves the handler.
\<close>

definition slidingWindowFallback :: "transaction list \<Rightarrow> string \<Rightarrow> error + category_result" where
  "slidingWindowFallback transactions cid =
     (case detectAnomaliesWithSlidingWindow transactions of
        (found, transactions') \<Rightarrow>
          if length found > 0 then
            (case map_result (\<lambda>a. toISOString (date a)) found of
               Inl e \<Rightarrow> Inl e
             | Inr logged \<Rightarrow>
                 Inr \<lparr>anomalies = map (resolveCategoryName transactions' cid) found,
                      categoryId = cid, message = None,
                      method_label = Some ''Sliding window detection''\<rparr>)
          else
            Inr \<lparr>anomalies = found, categoryId = cid, message = None,
                 method_label = Some ''Sliding window detection''\<rparr>)"

definition detectAnomaliesForCategory ::
    "store \<Rightarrow> outlier_model \<Rightarrow> int \<Rightarrow> string \<Rightarrow> string \<Rightarrow> error + category_result" where
  "detectAnomaliesForCategory db isolationForest now userId cid =
     (case expensesOfCategory db userId (Some cid) of
        Inl e \<Rightarrow> Inl e
      | Inr transactions \<Rightarrow>
          if length transactions < 5 then
            Inr \<lparr>anomalies = [], categoryId = cid,
                 message = Some ''Not enough transaction data for anomaly detection'',
                 method_label = None\<rparr>
          else
            (case outlierModelDetection isolationForest now transactions cid of
               Inr result \<Rightarrow> Inr result
             | Inl e \<Rightarrow> slidingWindowFallback transactions cid))"

section \<open>Aggregator\<close>

text \<open>A JavaScript \<^verbatim>\<open>Set\<close> keeps its elements in the order of their first insertion.\<close>

definition set_add :: "'a list \<Rightarrow> 'a \<Rightarrow> 'a list" where
  "set_add s x = (if x \<in> set s then s else s @ [x])"

definition collectCategories :: "transaction list \<Rightarrow> string list" where
  "collectCategories docs =
     foldl (\<lambda>categories data.
              case category data of
                None \<Rightarrow> categories
              | Some c \<Rightarrow> if c \<noteq> [] then set_add categories c else categories)
           [] docs"

definition by_date_desc_then_score :: "anomaly \<Rightarrow> anomaly \<Rightarrow> jsnum" where
  "by_date_desc_then_score a b =
     (let dateA = date a; dateB = date b
      in if \<not> js_eq (getTime dateB) (getTime dateA) then
           js_sub (getTime dateB) (getTime dateA)
         else js_sub (Math_abs (anomalyScore b)) (Math_abs (anomalyScore a)))"

text \<open>
  The per-category runs are started together and joined by \<^verbatim>\<open>Promise.all\<close>; each is a
  function of the store alone, so the model runs them in the order of the categories and
  fails with the first failure in that order.
\<close>

definition detectAnomaliesForUser ::
    "store \<Rightarrow> outlier_model \<Rightarrow> int \<Rightarrow> string \<Rightarrow> error + anomaly list" where
  "detectAnomaliesForUser db isolationForest now userId =
     (case expensesOfUser db userId of
        Inl e \<Rightarrow> Inl e
      | Inr docs \<Rightarrow>
          if length docs = 0 then Inr []
          else
            (let categories = collectCategories docs
             in if length categories = 0 then Inr []
                else
                  (case map_result (detectAnomaliesForCategory db isolationForest now userId)
                          categories of
                     Inl e \<Rightarrow> Inl e
                   | Inr results \<Rightarrow>
                       Inr (array_sort by_date_desc_then_score
                              (concat (map anomalies results))))))"

subsection \<open>The order of the feed, as specified\<close>


section \<open>Single-Transaction Check\<close>

datatype check_result = Flagged anomaly | NotFlagged transaction

fun isAnomaly :: "check_result \<Rightarrow> bool" where
  "isAnomaly (Flagged a) = True"
| "isAnomaly (NotFlagged t) = False"

definition check_reason :: "transaction \<Rightarrow> jsnum \<Rightarrow> jsnum \<Rightarrow> jsnum \<Rightarrow> string" where
  "check_reason transaction currentAmount mean score =
     (if js_gt score (Fin 5) then
        ''This expense of $'' @ toFixed 2 currentAmount @
        '' is extremely high compared to your typical '' @ or_empty (categoryName transaction) @
        '' spending of around $'' @ toFixed 2 mean @ ''.''
      else if js_gt score (Fin 3) then
        ''This expense is significantly higher than your average '' @
        or_empty (categoryName transaction) @ '' spending.''
      else
        ''This '' @ or_empty (categoryName transaction) @
        '' expense is higher than your typical spending pattern.'')"

text \<open>The \<^verbatim>\<open>try\<close> block of \<^verbatim>\<open>checkTransactionForAnomaly\<close>; \<open>Inr None\<close> is \<^verbatim>\<open>null\<close>.\<close>

definition checkTransaction_try ::
    "store \<Rightarrow> string \<Rightarrow> transaction \<Rightarrow> error + check_result option" where
  "checkTransaction_try db userId transaction =
     (case expensesOfCategory db userId (category transaction) of
        Inl e \<Rightarrow> Inl e
      | Inr docs \<Rightarrow>
          (let pastTransactions = filter (\<lambda>doc. tx_id doc \<noteq> tx_id transaction) docs
           in if length pastTransactions < 5 then Inr None
              else
                (let amounts = map (\<lambda>t. parseFloat (amount t)) pastTransactions;
                     mean = mean_of amounts;
                     stdDev = stdDev_of amounts;
                     threshold = js_add mean (js_mul (Fin 2.5) stdDev);
                     currentAmount = parseFloat (amount transaction)
                 in if js_gt currentAmount threshold then
                      (let score = js_div (js_sub currentAmount mean) stdDev
                       in Inr (Some (Flagged (annotate transaction score
                                 (check_reason transaction currentAmount mean score)))))
                    else Inr (Some (NotFlagged transaction)))))"

text \<open>The handler of \<^verbatim>\<open>checkTransactionForAnomaly\<close> logs the error and returns \<^verbatim>\<open>null\<close>.\<close>

definition checkTransactionForAnomaly ::
    "store \<Rightarrow> string \<Rightarrow> transaction \<Rightarrow> error + check_result option" where
  "checkTransactionForAnomaly db userId transaction =
     (case checkTransaction_try db userId transaction of
        Inl e \<Rightarrow> Inr None
      | Inr r \<Rightarrow> Inr r)"

section \<open>Scenarios\<close>

text \<open>Concrete transactions, histories and stores on which the definitions are run.\<close>

definition tx :: "string \<Rightarrow> real \<Rightarrow> int \<Rightarrow> transaction" where
  "tx i a day = \<lparr>tx_id = i, amount = Fin a, date = Some (day * msPerDay),
                 category = Some ''food'', categoryName = None\<rparr>"

definition flat_series :: "transaction list" where
  "flat_series =
     [tx ''t0'' 100 19700, tx ''t1'' 100 19701, tx ''t2'' 100 19702, tx ''t3'' 100 19703,
      tx ''t4'' 100 19704, tx ''t5'' 100 19705, tx ''t6'' 100 19706, tx ''t7'' 100 19707,
      tx ''t8'' 100 19708, tx ''t9'' 100 19709, tx ''t10'' 10000 19710]"

definition varied_series :: "transaction list" where
  "varied_series =
     [tx ''v0'' 53 19700, tx ''v1'' 47 19701, tx ''v2'' 51 19702, tx ''v3'' 49 19703,
      tx ''v4'' 50 19704, tx ''v5'' 60 19705, tx ''v6'' 52 19706]"


definition date_ascending :: "transaction list \<Rightarrow> bool" where
  "date_ascending txs = sorted_wrt (\<lambda>a b. \<not> js_gt (by_date_asc a b) (Fin 0)) txs"

definition store_of :: "transaction list \<Rightarrow> store" where
  "store_of docs = \<lparr>expensesOfCategory = (\<lambda>userId c. Inr docs), expensesOfUser = (\<lambda>userId. Inr docs)\<rparr>"

definition broken_store :: store where
  "broken_store =
     \<lparr>expensesOfCategory = (\<lambda>userId c. Inl (StoreFailure ''unavailable'')),
      expensesOfUser = (\<lambda>userId. Inl (StoreFailure ''unavailable''))\<rparr>"

definition half_broken_store :: store where
  "half_broken_store =
     \<lparr>expensesOfCategory = (\<lambda>userId c. Inl (StoreFailure ''unavailable'')),
      expensesOfUser = (\<lambda>userId. Inr varied_series)\<rparr>"

definition failing_model :: outlier_model where
  "failing_model features = Inl (ModelFailure ''fit'')"

definition insufficient :: category_result where
  "insufficient =
     \<lparr>anomalies = [], categoryId = ''food'',
      message = Some ''Not enough transaction data for anomaly detection'',
      method_label = None\<rparr>"

definition undated_outlier :: "transaction list" where
  "undated_outlier =
     [tx ''h0'' 53 19700, tx ''h1'' 47 19701, tx ''h2'' 51 19702, tx ''h3'' 49 19703,
      tx ''h4'' 50 19704, (tx ''h5'' 500 19705)\<lparr>date := None\<rparr>]"

definition future_tx :: transaction where
  "future_tx = \<lparr>tx_id = ''f0'', amount = Fin 20, date = Some 1700259200000,
                category = Some ''food'', categoryName = Some ''Food''\<rparr>"

definition ordinary_tx :: transaction where
  "ordinary_tx = (tx ''v4'' 50 19704)\<lparr>categoryName := Some ''Food''\<rparr>"







section \<open>Properties of the model\<close>

subsection \<open>The loop and the sort of the window detector\<close>

lemma window_loop_eq:
  "window_loop txs i acc = acc @ List.map_filter (window_step txs) [i..<length txs]"
proof (induction txs i acc rule: window_loop.induct)
  case (1 txs i acc)
  show ?case
  proof (cases "i < length txs")
    case True
    then show ?thesis
      using 1[OF True]
      by (subst window_loop.simps) (simp add: upt_conv_Cons map_filter_simps split: option.splits)
  next
    case False
    then show ?thesis
      by (subst window_loop.simps) (simp add: map_filter_simps)
  qed
qed

lemma mset_insert_by: "mset (insert_by cmp x xs) = add_mset x (mset xs)"
  by (induction xs) auto

lemma mset_array_sort: "mset (array_sort cmp xs) = mset xs"
  by (induction xs) (auto simp: mset_insert_by)

lemma length_array_sort: "length (array_sort cmp xs) = length xs"
  using mset_array_sort[of cmp xs] by (metis size_mset)


lemma insert_by_front:
  "\<forall>y \<in> set ys. \<not> js_gt (cmp x y) (Fin 0) \<Longrightarrow> insert_by cmp x ys = x # ys"
  by (cases ys) auto

lemma array_sort_ordered:
  "sorted_wrt (\<lambda>a b. \<not> js_gt (cmp a b) (Fin 0)) xs \<Longrightarrow> array_sort cmp xs = xs"
  by (induction xs) (auto simp: insert_by_front)

lemma detect_eq:
  "detectAnomaliesWithSlidingWindow txs =
     (List.map_filter (window_step (array_sort by_date_asc txs)) [minWindowSize..<length txs],
      array_sort by_date_asc txs)"
  by (simp add: detectAnomaliesWithSlidingWindow_def Let_def window_loop_eq length_array_sort)

subsection \<open>Scores of flagged transactions\<close>

lemma js_add_zero: "js_add x (Fin 0) = x"
  by (cases x) auto






subsection \<open>Running the definitions\<close>

lemma digits_of_small: "n < 10 \<Longrightarrow> digits_of n = [digit_char n]"
  by (subst digits_of.simps) simp

lemma digits_of_large: "10 \<le> n \<Longrightarrow> digits_of n = digits_of (n div 10) @ [digit_char n]"
  by (subst digits_of.simps) simp

lemmas toFixed_eval =
  toFixed_def Let_def digits_of_small digits_of_large digit_char_def pad_zeros_def

lemmas window_eval =
  window_step_def contextAmounts_def contextWindow_def slice_def windowSize_def mean_of_def
  stdDev_of_def parseFloat_def Math_pow2_def js_sub_def js_gt_def annotate_def
  window_reason_def or_empty_def

lemmas date_eval =
  date_ascending_def by_date_asc_def getTime_def js_sub_def js_gt_def msPerDay_def

lemma flat_series_ascending: "date_ascending flat_series"
  by (simp add: flat_series_def tx_def date_eval)


lemma detect_ascending:
  "date_ascending txs \<Longrightarrow>
   detectAnomaliesWithSlidingWindow txs =
     (List.map_filter (window_step txs) [minWindowSize..<length txs], txs)"
  by (simp add: detect_eq date_ascending_def array_sort_ordered)

lemma flat_series_detect:
  "fst (detectAnomaliesWithSlidingWindow flat_series) =
     [annotate (tx ''t10'' 10000 19710) PInf
        ''This expense of $10000.00 is extremely high compared to your typical  spending of around $100.00.'']"
proof -
  have "List.map_filter (window_step flat_series) [minWindowSize..<length flat_series] =
     [annotate (tx ''t10'' 10000 19710) PInf
        ''This expense of $10000.00 is extremely high compared to your typical  spending of around $100.00.'']"
    by (simp add: flat_series_def minWindowSize_def upt_conv_Cons map_filter_simps tx_def
        window_eval toFixed_eval)
  then show ?thesis
    by (simp add: detect_ascending[OF flat_series_ascending])
qed

lemma flat_series_deviation: "stdDev_of (contextAmounts flat_series 10) = Fin 0"
  by (simp add: flat_series_def tx_def window_eval)

subsection \<open>The single-transaction check\<close>

lemma check_eq:
  assumes "expensesOfCategory db userId (category t) = Inr docs"
    and "5 \<le> length (filter (\<lambda>doc. tx_id doc \<noteq> tx_id t) docs)"
  shows "checkTransactionForAnomaly db userId t =
     (let amounts = map (\<lambda>t. parseFloat (amount t)) (filter (\<lambda>doc. tx_id doc \<noteq> tx_id t) docs);
          mean = mean_of amounts; stdDev = stdDev_of amounts;
          currentAmount = parseFloat (amount t)
      in if js_gt currentAmount (js_add mean (js_mul (Fin 2.5) stdDev)) then
           Inr (Some (Flagged (annotate t (js_div (js_sub currentAmount mean) stdDev)
                  (check_reason t currentAmount mean (js_div (js_sub currentAmount mean) stdDev)))))
         else Inr (Some (NotFlagged t)))"
  using assms by (simp add: checkTransactionForAnomaly_def checkTransaction_try_def Let_def)

subsection \<open>Replacing a transaction\<close>






subsection \<open>The anomalies the detector returns\<close>




subsection \<open>The orchestrator\<close>

lemma map_result_Inl:
  "x \<in> set xs \<Longrightarrow> f x = Inl e \<Longrightarrow> \<exists>e'. map_result f xs = Inl e'"
  by (induction xs) (auto split: sum.splits)

lemma collectCategories_Nil: "collectCategories [] = []"
  by (simp add: collectCategories_def)

lemma varied_series_categories: "collectCategories varied_series = [''food'']"
  by (simp add: collectCategories_def varied_series_def tx_def set_add_def)

lemma map_result_ok:
  "\<forall>x\<in>set xs. \<exists>y. f x = Inr y \<Longrightarrow> \<exists>ys. map_result f xs = Inr ys"
  by (induction xs) (auto split: sum.splits)

lemma model_failure_falls_back:
  assumes "expensesOfCategory db userId (Some cid) = Inr txs" and "5 \<le> length txs"
    and "(\<exists>e. isolationForest (preprocessTransactions now txs) = Inl e) \<or>
         (\<exists>scores. isolationForest (preprocessTransactions now txs) = Inr scores \<and>
                   list_ex isNaN scores)"
  shows "detectAnomaliesForCategory db isolationForest now userId cid =
           slidingWindowFallback txs cid"
  using assms
  by (auto simp: detectAnomaliesForCategory_def outlierModelDetection_def Let_def)

lemma fallback_result:
  assumes "\<forall>a\<in>set (fst (detectAnomaliesWithSlidingWindow txs)). date a \<noteq> None"
  shows "slidingWindowFallback txs cid =
           Inr \<lparr>anomalies = map (resolveCategoryName (snd (detectAnomaliesWithSlidingWindow txs)) cid)
                               (fst (detectAnomaliesWithSlidingWindow txs)),
                categoryId = cid, message = None,
                method_label = Some ''Sliding window detection''\<rparr>"
proof -
  have "\<forall>a\<in>set (fst (detectAnomaliesWithSlidingWindow txs)). \<exists>y. toISOString (date a) = Inr y"
    using assms by (auto simp: toISOString_def)
  from map_result_ok[OF this]
  obtain ys where "map_result (\<lambda>a. toISOString (date a)) (fst (detectAnomaliesWithSlidingWindow txs)) = Inr ys"
    by blast
  then show ?thesis
    by (cases "detectAnomaliesWithSlidingWindow txs") (auto simp: slidingWindowFallback_def)
qed

lemma undated_outlier_detect:
  "detectAnomaliesWithSlidingWindow undated_outlier =
     ([annotate ((tx ''h5'' 500 19705)\<lparr>date := None\<rparr>) (Fin 225)
         ''This expense of $500.00 is extremely high compared to your typical  spending of around $50.00.''],
      undated_outlier)"
proof -
  have "date_ascending undated_outlier"
    by (simp add: undated_outlier_def tx_def date_eval)
  moreover have "List.map_filter (window_step undated_outlier) [minWindowSize..<length undated_outlier] =
     [annotate ((tx ''h5'' 500 19705)\<lparr>date := None\<rparr>) (Fin 225)
         ''This expense of $500.00 is extremely high compared to your typical  spending of around $50.00.'']"
    by (simp add: undated_outlier_def minWindowSize_def upt_conv_Cons tx_def window_eval toFixed_eval)
  ultimately show ?thesis
    by (simp add: detect_ascending)
qed

subsection \<open>The feature vector\<close>

lemma feature_vector_shape:
  "length (preprocessTransactions now txs) = length txs \<and>
   (\<forall>v\<in>set (preprocessTransactions now txs). length v = 4)"
  by (auto simp: preprocessTransactions_def Let_def)

lemma feature_vector_defaults:
  assumes "k < length txs"
  shows "(parseFloat (amount (txs ! k)) = NaN \<longrightarrow> preprocessTransactions now txs ! k ! 0 = Fin 0) \<and>
         (date (txs ! k) = None \<longrightarrow>
            preprocessTransactions now txs ! k ! 1 = Fin 1 \<and>
            preprocessTransactions now txs ! k ! 2 = Fin 0 \<and>
            preprocessTransactions now txs ! k ! 3 = Fin 0.5)"
  using assms by (simp add: preprocessTransactions_def Let_def isNaN_def getTime_def)

lemma feature_vector_recency:
  assumes "k < length txs" and "date (txs ! k) = Some ms"
  shows "preprocessTransactions now txs ! k ! 3 =
           Fin (min 1 (real_of_int (now - ms) / (1000 * 60 * 60 * 24 * 30)))"
    and "js_lt (preprocessTransactions now txs ! k ! 3) (Fin 0) \<longleftrightarrow> now < ms"
  using assms
  by (auto simp: preprocessTransactions_def Let_def isNaN_def getTime_def Math_min_def js_sub_def
      min_def field_simps)

lemma future_tx_day: "(1700259200000::int) div msPerDay = 19678"
  by (simp add: msPerDay_def)

lemma future_tx_date: "getDate (Some 1700259200000) = Fin 17"
  unfolding getDate_def option.case future_tx_day by code_simp

lemma future_tx_weekday: "getDay (Some 1700259200000) = Fin 5"
  unfolding getDay_def option.case future_tx_day by simp

subsection \<open>The reason generator\<close>

lemma reason_ignores_date:
  "generateAnomalyReason (anomaly\<lparr>date := d\<rparr>) txs = generateAnomalyReason anomaly txs"
  by (simp add: generateAnomalyReason_def Let_def)

subsection \<open>Sorting with a comparator\<close>




subsection \<open>The comparator of the feed\<close>





subsection \<open>Scores in the feed\<close>










subsection \<open>Two stores and their feeds\<close>











section \<open>Claims\<close>

subsection \<open>C1: a context window of zero standard deviation\<close>

text \<open>
  C1, counterexample. The claim says that a window whose standard deviation is zero never
  flags the current transaction. Ten transactions of amount 100 followed by one of amount
  10000: the window of the last has standard deviation 0, yet the last is flagged, with
  the score \<open>(10000 - 100) / 0\<close>, which is \<open>+Infinity\<close>.
\<close>

theorem zero_deviation_counterexample:
  "stdDev_of (contextAmounts (snd (detectAnomaliesWithSlidingWindow flat_series)) 10) = Fin 0 \<and>
   fst (detectAnomaliesWithSlidingWindow flat_series) =
     [annotate (tx ''t10'' 10000 19710) PInf
        ''This expense of $10000.00 is extremely high compared to your typical  spending of around $100.00.'']"
  using flat_series_detect flat_series_deviation
  by (simp add: detect_ascending[OF flat_series_ascending])

text \<open>
  C1, amended. Neither \<^verbatim>\<open>detectAnomaliesWithSlidingWindow\<close> nor
  \<^verbatim>\<open>checkTransactionForAnomaly\<close> guards a standard deviation of zero: the threshold
  \<open>mean + 2.5 * 0\<close> is the mean itself, so the current transaction is flagged exactly when
  its amount is strictly greater than the mean of the window, and the single-transaction
  check returns a result and does not raise.
\<close>

theorem zero_deviation_flags_above_mean:
  "(stdDev_of (contextAmounts txs i) = Fin 0 \<longrightarrow>
      (window_step txs i \<noteq> None) =
        js_gt (parseFloat (amount (txs ! i))) (mean_of (contextAmounts txs i))) \<and>
   (expensesOfCategory db userId (category t) = Inr docs \<and>
    5 \<le> length (filter (\<lambda>doc. tx_id doc \<noteq> tx_id t) docs) \<and>
    stdDev_of (map (\<lambda>t. parseFloat (amount t)) (filter (\<lambda>doc. tx_id doc \<noteq> tx_id t) docs)) = Fin 0 \<longrightarrow>
      (\<exists>r. checkTransactionForAnomaly db userId t = Inr (Some r) \<and>
           isAnomaly r =
             js_gt (parseFloat (amount t))
               (mean_of (map (\<lambda>t. parseFloat (amount t))
                  (filter (\<lambda>doc. tx_id doc \<noteq> tx_id t) docs)))))"
proof (intro conjI impI)
  assume "stdDev_of (contextAmounts txs i) = Fin 0"
  then show "(window_step txs i \<noteq> None) =
        js_gt (parseFloat (amount (txs ! i))) (mean_of (contextAmounts txs i))"
    by (simp add: window_step_def Let_def js_add_zero)
next
  let ?past = "filter (\<lambda>doc. tx_id doc \<noteq> tx_id t) docs"
  assume h: "expensesOfCategory db userId (category t) = Inr docs \<and> 5 \<le> length ?past \<and>
    stdDev_of (map (\<lambda>t. parseFloat (amount t)) ?past) = Fin 0"
  then have "expensesOfCategory db userId (category t) = Inr docs" "5 \<le> length ?past"
    and sd: "stdDev_of (map (\<lambda>t. parseFloat (amount t)) ?past) = Fin 0"
    by simp_all
  from check_eq[OF this(1,2)] sd
  show "\<exists>r. checkTransactionForAnomaly db userId t = Inr (Some r) \<and>
           isAnomaly r = js_gt (parseFloat (amount t)) (mean_of (map (\<lambda>t. parseFloat (amount t)) ?past))"
    by (simp add: Let_def js_add_zero)
qed

text \<open>C1, witness: the series above, in the detector and in the single-transaction check.\<close>

theorem zero_deviation_flags_above_mean_witness:
  "window_step flat_series 10 \<noteq> None \<and>
   (\<exists>r. checkTransactionForAnomaly (store_of (take 10 flat_series)) ''u'' (tx ''t10'' 10000 19710) = Inr (Some r) \<and> isAnomaly r)"
  using zero_deviation_flags_above_mean[of flat_series 10 "store_of (take 10 flat_series)" "''u''"
      "tx ''t10'' 10000 19710" "take 10 flat_series"]
  by (simp add: flat_series_def tx_def store_of_def window_eval)

subsection \<open>C2: failure of the outlier model\<close>

text \<open>
  C2, the code at the failing input. Six transactions of one category, the last with an
  amount of 500 and a date that does not parse, and an outlier model that raises. The
  failure of the model is caught and the window detector runs and flags the last
  transaction; the log line of the fallback then calls \<^verbatim>\<open>toISOString\<close> on its date,
  which raises a RangeError, and the outer handler raises it again to the caller: no
  result with a method label is returned. (By \<open>model_failure_falls_back\<close> and
  \<open>fallback_result\<close> the labelled result is returned whenever every flagged transaction
  has a valid date.)
\<close>

theorem fallback_log_raises:
  "failing_model (preprocessTransactions 1700000000000 undated_outlier) = Inl (ModelFailure ''fit'') \<and>
   fst (detectAnomaliesWithSlidingWindow undated_outlier) =
     [annotate ((tx ''h5'' 500 19705)\<lparr>date := None\<rparr>) (Fin 225)
         ''This expense of $500.00 is extremely high compared to your typical  spending of around $50.00.''] \<and>
   detectAnomaliesForCategory (store_of undated_outlier) failing_model 1700000000000 ''u'' ''food'' =
     Inl RangeError"
proof -
  have "length undated_outlier = 6"
    by (simp add: undated_outlier_def)
  then have "detectAnomaliesForCategory (store_of undated_outlier) failing_model 1700000000000 ''u'' ''food'' =
     slidingWindowFallback undated_outlier ''food''"
    by (simp add: detectAnomaliesForCategory_def store_of_def outlierModelDetection_def
        failing_model_def)
  also have "\<dots> = Inl RangeError"
    by (simp add: slidingWindowFallback_def undated_outlier_detect annotate_def toISOString_def)
  finally show ?thesis
    by (simp add: failing_model_def undated_outlier_detect)
qed

subsection \<open>C3: failures of the store\<close>

text \<open>
  C3, counterexample. The claim says that each of the three entry points raises when the
  store fails. \<^verbatim>\<open>checkTransactionForAnomaly\<close> catches every exception of its body and
  returns \<^verbatim>\<open>null\<close>: on a store whose query fails it returns normally.
\<close>

theorem store_failure_masked_counterexample:
  "expensesOfCategory broken_store ''u'' (category (tx ''v5'' 60 19705)) =
     Inl (StoreFailure ''unavailable'') \<and>
   checkTransactionForAnomaly broken_store ''u'' (tx ''v5'' 60 19705) = Inr None"
  by (simp add: broken_store_def checkTransactionForAnomaly_def checkTransaction_try_def)

text \<open>
  C3, amended. \<^verbatim>\<open>detectAnomaliesForCategory\<close> and \<^verbatim>\<open>detectAnomaliesForUser\<close> raise the
  failure of their own query of the store, and \<^verbatim>\<open>detectAnomaliesForUser\<close> raises when
  the query of any of its categories fails; \<^verbatim>\<open>checkTransactionForAnomaly\<close> catches the
  failure and returns \<^verbatim>\<open>null\<close>.
\<close>

theorem store_failure_surfaced:
  "(expensesOfCategory db userId (Some cid) = Inl e \<longrightarrow>
      detectAnomaliesForCategory db isolationForest now userId cid = Inl e) \<and>
   (expensesOfUser db userId = Inl e \<longrightarrow>
      detectAnomaliesForUser db isolationForest now userId = Inl e) \<and>
   (expensesOfUser db userId = Inr docs \<and> c \<in> set (collectCategories docs) \<and>
    expensesOfCategory db userId (Some c) = Inl e \<longrightarrow>
      (\<exists>e'. detectAnomaliesForUser db isolationForest now userId = Inl e')) \<and>
   (expensesOfCategory db userId (category t) = Inl e \<longrightarrow>
      checkTransactionForAnomaly db userId t = Inr None)"
proof (intro conjI impI)
  assume "expensesOfCategory db userId (Some cid) = Inl e"
  then show "detectAnomaliesForCategory db isolationForest now userId cid = Inl e"
    by (simp add: detectAnomaliesForCategory_def)
next
  assume "expensesOfUser db userId = Inl e"
  then show "detectAnomaliesForUser db isolationForest now userId = Inl e"
    by (simp add: detectAnomaliesForUser_def)
next
  assume h: "expensesOfUser db userId = Inr docs \<and> c \<in> set (collectCategories docs) \<and>
    expensesOfCategory db userId (Some c) = Inl e"
  then have c: "c \<in> set (collectCategories docs)" by simp
  then have ne: "docs \<noteq> []" "collectCategories docs \<noteq> []"
    by (auto simp: collectCategories_Nil)
  from h have "detectAnomaliesForCategory db isolationForest now userId c = Inl e"
    by (simp add: detectAnomaliesForCategory_def)
  from map_result_Inl[of c _ "detectAnomaliesForCategory db isolationForest now userId", OF c this]
  obtain e' where "map_result (detectAnomaliesForCategory db isolationForest now userId)
      (collectCategories docs) = Inl e'" by blast
  with h ne show "\<exists>e'. detectAnomaliesForUser db isolationForest now userId = Inl e'"
    by (simp add: detectAnomaliesForUser_def Let_def)
next
  assume "expensesOfCategory db userId (category t) = Inl e"
  then show "checkTransactionForAnomaly db userId t = Inr None"
    by (simp add: checkTransactionForAnomaly_def checkTransaction_try_def)
qed

text \<open>C3, witness: a store whose every query fails, and one whose listing succeeds while
  the query of the category fails.\<close>

theorem store_failure_surfaced_witness:
  "detectAnomaliesForCategory broken_store failing_model 0 ''u'' ''food'' =
     Inl (StoreFailure ''unavailable'') \<and>
   detectAnomaliesForUser broken_store failing_model 0 ''u'' = Inl (StoreFailure ''unavailable'') \<and>
   (\<exists>e'. detectAnomaliesForUser half_broken_store failing_model 0 ''u'' = Inl e') \<and>
   checkTransactionForAnomaly broken_store ''u'' (tx ''v5'' 60 19705) = Inr None"
  using store_failure_surfaced[of broken_store "''u''" "''food''" "StoreFailure ''unavailable''"
      failing_model 0 "[]" "''food''" "tx ''v5'' 60 19705"]
    store_failure_surfaced[of half_broken_store "''u''" "''food''" "StoreFailure ''unavailable''"
      failing_model 0 varied_series "''food''" "tx ''v5'' 60 19705"]
  by (simp add: broken_store_def half_broken_store_def varied_series_categories tx_def)

subsection \<open>C4: fewer than five qualifying transactions\<close>

text \<open>
  C4. When the store yields fewer than five transactions of the category,
  \<^verbatim>\<open>detectAnomaliesForCategory\<close> returns the result with no anomalies and the message
  ``Not enough transaction data for anomaly detection''; when fewer than five are left
  after the transaction under test is removed by its id, \<^verbatim>\<open>checkTransactionForAnomaly\<close>
  returns \<^verbatim>\<open>null\<close>. Both return normally.
\<close>

theorem insufficient_data_result:
  "(expensesOfCategory db userId (Some cid) = Inr txs \<and> length txs < 5 \<longrightarrow>
      detectAnomaliesForCategory db isolationForest now userId cid =
        Inr \<lparr>anomalies = [], categoryId = cid,
             message = Some ''Not enough transaction data for anomaly detection'',
             method_label = None\<rparr>) \<and>
   (expensesOfCategory db userId (category t) = Inr docs \<and>
    length (filter (\<lambda>doc. tx_id doc \<noteq> tx_id t) docs) < 5 \<longrightarrow>
      checkTransactionForAnomaly db userId t = Inr None)"
  by (simp add: detectAnomaliesForCategory_def checkTransactionForAnomaly_def
      checkTransaction_try_def Let_def)

text \<open>C4, witness: a history of four, and a history of five that holds the transaction under test.\<close>

theorem insufficient_data_result_witness:
  "detectAnomaliesForCategory (store_of (take 4 varied_series)) failing_model 0 ''u'' ''food'' =
     Inr insufficient \<and>
   checkTransactionForAnomaly (store_of (take 5 varied_series)) ''u'' (tx ''v4'' 50 19704) = Inr None"
  using insufficient_data_result[of "store_of (take 4 varied_series)" "''u''" "''food''"
      "take 4 varied_series" failing_model 0 "tx ''v4'' 50 19704"
      "take 4 varied_series"]
    insufficient_data_result[of "store_of (take 5 varied_series)" "''u''" "''food''"
      "take 5 varied_series" failing_model 0 "tx ''v4'' 50 19704"
      "take 5 varied_series"]
  by (simp add: store_of_def varied_series_def tx_def insufficient_def)

subsection \<open>C5: the order of the feed\<close>




subsection \<open>C6: the feature vector\<close>

text \<open>
  C6, the code at the failing input. A transaction dated three days after \<open>now\<close>: its
  recency is \<open>min(1, -3/30) = -0.1\<close>, below the range from 0 to 1 that the claim and the
  comment in the code state; \<^verbatim>\<open>Math.min(1, ...)\<close> bounds the value from above only. (The
  defaults for an unparseable amount or date and the formula of the recency are as the
  claim says: \<open>feature_vector_shape\<close>, \<open>feature_vector_defaults\<close>,
  \<open>feature_vector_recency\<close>.)
\<close>

theorem recency_negative_for_future_date:
  "preprocessTransactions 1700000000000 [future_tx] = [[Fin 20, Fin 17, Fin 5, Fin (- 0.1)]] \<and>
   js_lt (Fin (- 0.1)) (Fin 0)"
  by (simp add: preprocessTransactions_def future_tx_def Let_def isNaN_def getTime_def
      Math_min_def js_sub_def parseFloat_def future_tx_date future_tx_weekday)

subsection \<open>C7: the window looks backward only\<close>



subsection \<open>C8: the reasons of the outlier model path\<close>

text \<open>
  C8, the code at the failing input. A transaction of amount 50 on a Wednesday, in a
  category whose amounts average about 51.7 with a maximum of 60: the ratio is below 1.5
  and the amount is not the maximum, so the generic reason is returned. The code looks the
  weekday up (\<open>Wednesday\<close>) but the sentence it returns does not contain it: by
  \<open>reason_ignores_date\<close> no reason depends on the date at all.
\<close>

theorem generic_reason_omits_weekday:
  "generateAnomalyReason ordinary_tx varied_series =
     ''This Food expense has an unusual pattern (timing, amount, or frequency) compared to your typical spending.'' \<and>
   weekday_at (getDay (date ordinary_tx)) = Some ''Wednesday'' \<and>
   \<not> sublist ''Wednesday'' (generateAnomalyReason ordinary_tx varied_series)"
proof -
  have r: "generateAnomalyReason ordinary_tx varied_series =
     ''This Food expense has an unusual pattern (timing, amount, or frequency) compared to your typical spending.''"
    by (simp add: generateAnomalyReason_def ordinary_tx_def varied_series_def tx_def Let_def
        parseFloat_def Math_max_def Math_max2_def js_gt_def js_eq_def or_empty_def)
  have d: "weekday_at (getDay (date ordinary_tx)) = Some ''Wednesday''"
    by (simp add: ordinary_tx_def tx_def getDay_def msPerDay_def weekday_at_def weekday_def)
  have "\<not> sublist ''Wednesday'' ''This Food expense has an unusual pattern (timing, amount, or frequency) compared to your typical spending.''"
    by (simp add: sublist_code)
  with r d show ?thesis by simp
qed

subsection \<open>C9: the detector and the caller's array\<close>




subsection \<open>C10: the score of a flagged transaction\<close>



end
